theory Spec2Isabelle
  imports Main
begin

section \<open>Data model\<close>

text \<open>
  Modelled from the spec: the declaration of the Go type \<^verbatim>\<open>Path\<close> is not among the
  sources. Its three string fields are the ones the code reads and writes
  (\<^verbatim>\<open>path.Collection\<close>, \<^verbatim>\<open>path.Key\<close>, \<^verbatim>\<open>path.Ref\<close>), the EntityAddress
  (collection, key, ref) of the specification. An absent ref is the empty string.
\<close>

record Path =
  Collection :: string
  Key :: string
  Ref :: string

text \<open>client.go: \<^verbatim>\<open>OrchestrateError\<close>, the only error type the package declares.\<close>

record OrchestrateError =
  Status :: string
  Message :: string
  Locator :: string

text \<open>
  A Go \<^verbatim>\<open>error\<close> value is either an \<^verbatim>\<open>*OrchestrateError\<close> or an error made by a
  library (transport, reader, JSON), which the package passes on untouched.
\<close>

datatype error = LibraryError string | ServiceError OrchestrateError

text \<open>
  Run-time panics of Go: an index past the end of a slice (index, length) and a slice
  expression whose lower bound is past the end of a string (bound, length).
\<close>

datatype panic = IndexOutOfRange nat nat | SliceBoundsOutOfRange nat nat

datatype 'a outcome = Return 'a | Panic panic

text \<open>
  A response body is a stream: the bytes it delivers and the error, if any, that ends
  it before the end of the data.
\<close>

datatype ReadCloser = ReadCloser string "error option"

record Request =
  Method :: string
  TrailingPath :: string
  Headers :: "string \<rightharpoonup> string"
  ReqBody :: "string option"

record Response =
  StatusCode :: int
  Status :: string
  Header :: "string \<rightharpoonup> string"
  Body :: ReadCloser

record KVResult =
  Path :: Path
  RawValue :: string

record KVResults =
  Count :: nat
  Results :: "KVResult list"
  Next :: string

record GraphResult =
  Path :: Path
  RawValue :: string

record GraphResults =
  Count :: nat
  Results :: "GraphResult list"

record Event =
  Ordinal :: nat
  Timestamp :: nat
  RawValue :: string

record EventResults =
  Count :: nat
  Results :: "Event list"

text \<open>
  The four-argument \<^verbatim>\<open>doRequest(method, trailingPath, headers, body)\<close> that every
  operation calls is not among the sources (client.go holds an older three-argument
  one). What it does with its four arguments is the parameter \<open>tr\<close> of every operation
  below: a transport receives the four arguments as a \<^typ>\<open>Request\<close> and answers with an
  error or a response.
\<close>

type_synonym transport = "Request \<Rightarrow> error + Response"

text \<open>
  \<^verbatim>\<open>encoding/json\<close> is a library: a decoder is a parameter. Like Go's
  \<^verbatim>\<open>Decode(v)\<close> and \<^verbatim>\<open>Unmarshal(data, v)\<close> it receives the target, returns the
  target as it has left it, and reports an error or none.
\<close>

type_synonym 'a decoder = "ReadCloser \<Rightarrow> 'a \<Rightarrow> 'a \<times> error option"


section \<open>Library functions the code calls\<close>

text \<open>
  \<^verbatim>\<open>strings.SplitAfter(s, sep)\<close> for a separator of one byte: \<open>s\<close> is cut after each
  separator, the pieces keep their separator, and the last piece is what follows the last
  separator (empty when \<open>s\<close> is empty or ends with the separator).
\<close>

fun SplitAfter :: "string \<Rightarrow> char \<Rightarrow> string list" where
  "SplitAfter [] sep = [[]]"
| "SplitAfter (c # cs) sep =
     (if c = sep then [c] # SplitAfter cs sep
      else (case SplitAfter cs sep of
              [] \<Rightarrow> [[c]]
            | p # ps \<Rightarrow> (c # p) # ps))"

text \<open>\<^verbatim>\<open>strings.Join(elems, sep)\<close>.\<close>

fun Join :: "string list \<Rightarrow> string \<Rightarrow> string" where
  "Join [] sep = []"
| "Join [x] sep = x"
| "Join (x # y # ys) sep = x @ sep @ Join (y # ys) sep"

text \<open>\<^verbatim>\<open>xs[i]\<close> on a slice: a panic when \<open>i\<close> is not below the length.\<close>

definition index :: "'a list \<Rightarrow> nat \<Rightarrow> panic + 'a" where
  "index xs i = (if i < length xs then Inr (xs ! i) else Inl (IndexOutOfRange i (length xs)))"


text \<open>\<^verbatim>\<open>resp.Header.Get(key)\<close>: the empty string when the header is absent.\<close>

definition HeaderGet :: "Response \<Rightarrow> string \<Rightarrow> string" where
  "HeaderGet resp k = (case Header resp k of None \<Rightarrow> [] | Some v \<Rightarrow> v)"

text \<open>\<^verbatim>\<open>buf.ReadFrom(resp.Body)\<close>: all the bytes, or the error of the stream.\<close>

fun ReadFrom :: "ReadCloser \<Rightarrow> error + string" where
  "ReadFrom (ReadCloser bytes None) = Inr bytes"
| "ReadFrom (ReadCloser bytes (Some e)) = Inl e"

section \<open>Paths\<close>

definition trailingGetURI :: "Path \<Rightarrow> string" where
  "trailingGetURI path =
     (if Ref path \<noteq> [] then Collection path @ ''/'' @ Key path @ ''/refs/'' @ Ref path
      else Collection path @ ''/'' @ Key path)"

definition trailingPutURI :: "Path \<Rightarrow> string" where
  "trailingPutURI path = Collection path @ ''/'' @ Key path"

section \<open>Errors of the service\<close>

text \<open>
  client.go, \<^verbatim>\<open>newError\<close>: a fresh, zeroed \<^verbatim>\<open>OrchestrateError\<close> is handed to the
  decoder, whose error is dropped; the status line is stored afterwards.
\<close>

definition zeroError :: OrchestrateError where
  "zeroError = \<lparr>OrchestrateError.Status = [], Message = [], Locator = []\<rparr>"

definition newError :: "OrchestrateError decoder \<Rightarrow> Response \<Rightarrow> error" where
  "newError dec resp =
     (let orchestrateError = fst (dec (Body resp) zeroError)
      in ServiceError (orchestrateError\<lparr>OrchestrateError.Status := Response.Status resp\<rparr>))"

section \<open>Requests\<close>

text \<open>
  A call of \<^verbatim>\<open>doRequest\<close> hands its four arguments to the transport and records
  them. Every operation returns, beside its result, the requests it has handed to
  \<^verbatim>\<open>doRequest\<close>, in order: the empty list says that no network call was made.
\<close>

definition doRequest ::
  "transport \<Rightarrow> string \<Rightarrow> string \<Rightarrow> (string \<rightharpoonup> string) \<Rightarrow> string option
     \<Rightarrow> (error + Response) \<times> Request list" where
  "doRequest tr method trailingPath headers body =
     (let req = \<lparr>Method = method, TrailingPath = trailingPath, Headers = headers, ReqBody = body\<rparr>
      in (tr req, [req]))"

text \<open>\<^verbatim>\<open>json.NewEncoder(buf).Encode(value)\<close>: the bytes, or the encoder's error.\<close>

type_synonym 'v encoder = "'v \<Rightarrow> error + string"

section \<open>Key/value operations\<close>

text \<open>
  \<^verbatim>\<open>GetPath\<close> takes a pointer to the caller's \<^verbatim>\<open>Path\<close> and may assign its
  \<^verbatim>\<open>Ref\<close>: the second component of the result is the caller's path after the call.
\<close>

definition GetPath ::
  "transport \<Rightarrow> OrchestrateError decoder \<Rightarrow> Path
     \<Rightarrow> (KVResult option \<times> error option) outcome \<times> Path \<times> Request list" where
  "GetPath tr dec path =
     (case doRequest tr ''GET'' (trailingGetURI path) Map.empty None of
        (Inl err, reqs) \<Rightarrow> (Return (None, Some err), path, reqs)
      | (Inr resp, reqs) \<Rightarrow>
          if StatusCode resp \<noteq> 200 then (Return (None, Some (newError dec resp)), path, reqs)
          else (case ReadFrom (Body resp) of
                  Inl err \<Rightarrow> (Return (None, Some err), path, reqs)
                | Inr buf \<Rightarrow>
                    if Ref path = [] then
                      (case index (SplitAfter (HeaderGet resp ''Content-Location'') CHR ''/'') 5 of
                         Inl p \<Rightarrow> (Panic p, path, reqs)
                       | Inr r \<Rightarrow>
                           (let path' = path\<lparr>Ref := r\<rparr>
                            in (Return (Some \<lparr>KVResult.Path = path', RawValue = buf\<rparr>, None),
                                path', reqs)))
                    else (Return (Some \<lparr>KVResult.Path = path, RawValue = buf\<rparr>, None),
                          path, reqs)))"


definition doPut ::
  "transport \<Rightarrow> OrchestrateError decoder \<Rightarrow> Path \<Rightarrow> (string \<rightharpoonup> string) \<Rightarrow> string
     \<Rightarrow> (Path option \<times> error option) outcome \<times> Request list" where
  "doPut tr dec path headers val =
     (case doRequest tr ''PUT'' (trailingPutURI path) headers (Some val) of
        (Inl err, reqs) \<Rightarrow> (Return (None, Some err), reqs)
      | (Inr resp, reqs) \<Rightarrow>
          if StatusCode resp \<noteq> 201 then (Return (None, Some (newError dec resp)), reqs)
          else (case index (SplitAfter (HeaderGet resp ''Location'') CHR ''/'') 5 of
                  Inl p \<Rightarrow> (Panic p, reqs)
                | Inr r \<Rightarrow>
                    (Return (Some \<lparr>Collection = Collection path, Key = Key path, Ref = r\<rparr>, None),
                     reqs)))"

definition PutRaw ::
  "transport \<Rightarrow> OrchestrateError decoder \<Rightarrow> string \<Rightarrow> string \<Rightarrow> string
     \<Rightarrow> (Path option \<times> error option) outcome \<times> Request list" where
  "PutRaw tr dec collection key val =
     doPut tr dec \<lparr>Collection = collection, Key = key, Ref = []\<rparr> Map.empty val"

definition Put ::
  "transport \<Rightarrow> OrchestrateError decoder \<Rightarrow> 'v encoder \<Rightarrow> string \<Rightarrow> string \<Rightarrow> 'v
     \<Rightarrow> (Path option \<times> error option) outcome \<times> Request list" where
  "Put tr dec enc collection key val =
     (case enc val of
        Inl err \<Rightarrow> (Return (None, Some err), [])
      | Inr buf \<Rightarrow> PutRaw tr dec collection key buf)"

definition PutIfUnmodifiedRaw ::
  "transport \<Rightarrow> OrchestrateError decoder \<Rightarrow> Path \<Rightarrow> string
     \<Rightarrow> (Path option \<times> error option) outcome \<times> Request list" where
  "PutIfUnmodifiedRaw tr dec path val =
     (let headers = [''If-Match'' \<mapsto> ''\"'' @ Ref path @ ''\"'']
      in doPut tr dec path headers val)"

definition PutIfUnmodified ::
  "transport \<Rightarrow> OrchestrateError decoder \<Rightarrow> 'v encoder \<Rightarrow> Path \<Rightarrow> 'v
     \<Rightarrow> (Path option \<times> error option) outcome \<times> Request list" where
  "PutIfUnmodified tr dec enc path val =
     (case enc val of
        Inl err \<Rightarrow> (Return (None, Some err), [])
      | Inr buf \<Rightarrow> PutIfUnmodifiedRaw tr dec path buf)"

definition PutIfAbsentRaw ::
  "transport \<Rightarrow> OrchestrateError decoder \<Rightarrow> string \<Rightarrow> string \<Rightarrow> string
     \<Rightarrow> (Path option \<times> error option) outcome \<times> Request list" where
  "PutIfAbsentRaw tr dec collection key val =
     (let headers = [''If-None-Match'' \<mapsto> ''\"*\"'']
      in doPut tr dec \<lparr>Collection = collection, Key = key, Ref = []\<rparr> headers val)"

definition PutIfAbsent ::
  "transport \<Rightarrow> OrchestrateError decoder \<Rightarrow> 'v encoder \<Rightarrow> string \<Rightarrow> string \<Rightarrow> 'v
     \<Rightarrow> (Path option \<times> error option) outcome \<times> Request list" where
  "PutIfAbsent tr dec enc collection key val =
     (case enc val of
        Inl err \<Rightarrow> (Return (None, Some err), [])
      | Inr buf \<Rightarrow> PutIfAbsentRaw tr dec collection key buf)"

definition doDelete ::
  "transport \<Rightarrow> OrchestrateError decoder \<Rightarrow> string \<Rightarrow> (string \<rightharpoonup> string)
     \<Rightarrow> error option \<times> Request list" where
  "doDelete tr dec trailingUri headers =
     (case doRequest tr ''DELETE'' trailingUri headers None of
        (Inl err, reqs) \<Rightarrow> (Some err, reqs)
      | (Inr resp, reqs) \<Rightarrow>
          if StatusCode resp \<noteq> 204 then (Some (newError dec resp), reqs)
          else (None, reqs))"

definition Delete ::
  "transport \<Rightarrow> OrchestrateError decoder \<Rightarrow> string \<Rightarrow> string \<Rightarrow> error option \<times> Request list" where
  "Delete tr dec collection key = doDelete tr dec (collection @ ''/'' @ key) Map.empty"

definition DeleteIfUnmodified ::
  "transport \<Rightarrow> OrchestrateError decoder \<Rightarrow> Path \<Rightarrow> error option \<times> Request list" where
  "DeleteIfUnmodified tr dec path =
     (let headers = [''If-Match'' \<mapsto> ''\"'' @ Ref path @ ''\"'']
      in doDelete tr dec (trailingPutURI path) headers)"

definition Purge ::
  "transport \<Rightarrow> OrchestrateError decoder \<Rightarrow> string \<Rightarrow> string \<Rightarrow> error option \<times> Request list" where
  "Purge tr dec collection key =
     doDelete tr dec (collection @ ''/'' @ key @ ''?purge=true'') Map.empty"

definition DeleteCollection ::
  "transport \<Rightarrow> OrchestrateError decoder \<Rightarrow> string \<Rightarrow> error option \<times> Request list" where
  "DeleteCollection tr dec collection = doDelete tr dec (collection @ ''?force=true'') Map.empty"

section \<open>Listing\<close>





section \<open>Relations\<close>

definition zeroGraphResults :: GraphResults where
  "zeroGraphResults = \<lparr>GraphResults.Count = 0, Results = []\<rparr>"

definition GetRelations ::
  "transport \<Rightarrow> OrchestrateError decoder \<Rightarrow> GraphResults decoder \<Rightarrow> string \<Rightarrow> string
     \<Rightarrow> string list \<Rightarrow> (GraphResults option \<times> error option) \<times> Request list" where
  "GetRelations tr dec decGraph collection key hops =
     (let relationsPath = Join hops ''/'';
          trailingUri = collection @ ''/'' @ key @ ''/relations/'' @ relationsPath
      in case doRequest tr ''GET'' trailingUri Map.empty None of
           (Inl err, reqs) \<Rightarrow> ((None, Some err), reqs)
         | (Inr resp, reqs) \<Rightarrow>
             if StatusCode resp \<noteq> 200 then ((None, Some (newError dec resp)), reqs)
             else (case decGraph (Body resp) zeroGraphResults of
                     (result, Some err) \<Rightarrow> ((None, Some err), reqs)
                   | (result, None) \<Rightarrow> ((Some result, None), reqs)))"

definition PutRelation ::
  "transport \<Rightarrow> OrchestrateError decoder \<Rightarrow> string \<Rightarrow> string \<Rightarrow> string \<Rightarrow> string \<Rightarrow> string
     \<Rightarrow> error option \<times> Request list" where
  "PutRelation tr dec sourceCollection sourceKey kind sinkCollection sinkKey =
     (let trailingUri = sourceCollection @ ''/'' @ sourceKey @ ''/relation/'' @ kind @ ''/''
                          @ sinkCollection @ ''/'' @ sinkKey
      in case doRequest tr ''PUT'' trailingUri Map.empty None of
           (Inl err, reqs) \<Rightarrow> (Some err, reqs)
         | (Inr resp, reqs) \<Rightarrow>
             if StatusCode resp \<noteq> 204 then (Some (newError dec resp), reqs)
             else (None, reqs))"

section \<open>Events\<close>

definition zeroEventResults :: EventResults where
  "zeroEventResults = \<lparr>EventResults.Count = 0, Results = []\<rparr>"

definition doGetEvents ::
  "transport \<Rightarrow> OrchestrateError decoder \<Rightarrow> EventResults decoder \<Rightarrow> string
     \<Rightarrow> (EventResults option \<times> error option) \<times> Request list" where
  "doGetEvents tr dec decEvents trailingUri =
     (case doRequest tr ''GET'' trailingUri Map.empty None of
        (Inl err, reqs) \<Rightarrow> ((None, Some err), reqs)
      | (Inr resp, reqs) \<Rightarrow>
          if StatusCode resp \<noteq> 200 then ((None, Some (newError dec resp)), reqs)
          else (case decEvents (Body resp) zeroEventResults of
                  (results, Some err) \<Rightarrow> ((None, Some err), reqs)
                | (results, None) \<Rightarrow> ((Some results, None), reqs)))"

definition GetEvents ::
  "transport \<Rightarrow> OrchestrateError decoder \<Rightarrow> EventResults decoder \<Rightarrow> string \<Rightarrow> string \<Rightarrow> string
     \<Rightarrow> (EventResults option \<times> error option) \<times> Request list" where
  "GetEvents tr dec decEvents collection key kind =
     doGetEvents tr dec decEvents (collection @ ''/'' @ key @ ''/events/'' @ kind)"

definition doPutEvent ::
  "transport \<Rightarrow> OrchestrateError decoder \<Rightarrow> string \<Rightarrow> string \<Rightarrow> error option \<times> Request list" where
  "doPutEvent tr dec trailingUri val =
     (case doRequest tr ''PUT'' trailingUri Map.empty (Some val) of
        (Inl err, reqs) \<Rightarrow> (Some err, reqs)
      | (Inr resp, reqs) \<Rightarrow>
          if StatusCode resp \<noteq> 204 then (Some (newError dec resp), reqs)
          else (None, reqs))"

definition PutEventRaw ::
  "transport \<Rightarrow> OrchestrateError decoder \<Rightarrow> string \<Rightarrow> string \<Rightarrow> string \<Rightarrow> string
     \<Rightarrow> error option \<times> Request list" where
  "PutEventRaw tr dec collection key kind val =
     doPutEvent tr dec (collection @ ''/'' @ key @ ''/events/'' @ kind) val"

definition PutEvent ::
  "transport \<Rightarrow> OrchestrateError decoder \<Rightarrow> 'v encoder \<Rightarrow> string \<Rightarrow> string \<Rightarrow> string \<Rightarrow> 'v
     \<Rightarrow> error option \<times> Request list" where
  "PutEvent tr dec enc collection key kind val =
     (case enc val of
        Inl err \<Rightarrow> (Some err, [])
      | Inr buf \<Rightarrow> PutEventRaw tr dec collection key kind buf)"

section \<open>Decoding a payload on demand\<close>




section \<open>Sample transports, responses and decoders\<close>

text \<open>A transport that answers every request with the same response.\<close>

definition serve :: "Response \<Rightarrow> transport" where
  "serve resp = (\<lambda>req. Inr resp)"

definition created :: "string \<Rightarrow> Response" where
  "created location =
     \<lparr>StatusCode = 201, Status = ''201 Created'', Header = [''Location'' \<mapsto> location],
      Body = ReadCloser [] None\<rparr>"

definition found :: "string \<Rightarrow> string \<Rightarrow> Response" where
  "found location payload =
     \<lparr>StatusCode = 200, Status = ''200 OK'', Header = [''Content-Location'' \<mapsto> location],
      Body = ReadCloser payload None\<rparr>"


text \<open>A decoder that rejects its input and leaves the target as it was.\<close>

definition rejecting :: "'a decoder" where
  "rejecting body target = (target, Some (LibraryError ''invalid character''))"


section \<open>The requests of each operation\<close>

lemma doRequest_simp:
  "doRequest tr m p h b = (tr \<lparr>Method = m, TrailingPath = p, Headers = h, ReqBody = b\<rparr>,
     [\<lparr>Method = m, TrailingPath = p, Headers = h, ReqBody = b\<rparr>])"
  by (simp add: doRequest_def Let_def)

lemma doPut_requests:
  "snd (doPut tr dec path hs v) =
     [\<lparr>Method = ''PUT'', TrailingPath = trailingPutURI path, Headers = hs, ReqBody = Some v\<rparr>]"
  by (simp add: doPut_def doRequest_simp split: sum.splits)

lemma GetPath_requests:
  "snd (snd (GetPath tr dec path)) =
     [\<lparr>Method = ''GET'', TrailingPath = trailingGetURI path, Headers = Map.empty, ReqBody = None\<rparr>]"
  by (simp add: GetPath_def doRequest_simp Let_def split: sum.splits)

lemma doDelete_requests:
  "snd (doDelete tr dec uri hs) =
     [\<lparr>Method = ''DELETE'', TrailingPath = uri, Headers = hs, ReqBody = None\<rparr>]"
  by (simp add: doDelete_def doRequest_simp split: sum.splits)


lemma GetRelations_requests:
  "snd (GetRelations tr dec decGraph c k hops) =
     [\<lparr>Method = ''GET'', TrailingPath = c @ ''/'' @ k @ ''/relations/'' @ Join hops ''/'',
       Headers = Map.empty, ReqBody = None\<rparr>]"
  by (simp add: GetRelations_def doRequest_simp Let_def split: sum.splits prod.splits option.splits)

lemma PutRelation_requests:
  "snd (PutRelation tr dec sc sk kind tc tk) =
     [\<lparr>Method = ''PUT'',
       TrailingPath = sc @ ''/'' @ sk @ ''/relation/'' @ kind @ ''/'' @ tc @ ''/'' @ tk,
       Headers = Map.empty, ReqBody = None\<rparr>]"
  by (simp add: PutRelation_def doRequest_simp Let_def split: sum.splits)

section \<open>Cutting a header into pieces\<close>

lemma SplitAfter_no_sep: "sep \<notin> set s \<Longrightarrow> SplitAfter s sep = [s]"
  by (induction s) auto

lemma SplitAfter_piece:
  "sep \<notin> set a \<Longrightarrow> SplitAfter (a @ sep # rest) sep = (a @ [sep]) # SplitAfter rest sep"
  by (induction a) auto

lemma SplitAfter_service_shape:
  assumes "CHR ''/'' \<notin> set c" and "CHR ''/'' \<notin> set k" and "CHR ''/'' \<notin> set r"
  shows "SplitAfter (''/v0/'' @ c @ ''/'' @ k @ ''/refs/'' @ r) CHR ''/'' =
           [''/'', ''v0/'', c @ ''/'', k @ ''/'', ''refs/'', r]"
  using assms by (simp add: SplitAfter_piece SplitAfter_no_sep)

lemma Join_Cons: "Join (h # hs) sep = h @ concat (map (\<lambda>x. sep @ x) hs)"
  by (induction hs arbitrary: h) auto

section \<open>Results of the key/value operations\<close>

lemma doPut_created:
  assumes "tr \<lparr>Method = ''PUT'', TrailingPath = trailingPutURI path, Headers = hs, ReqBody = Some v\<rparr> = Inr resp"
    and "StatusCode resp = 201"
    and "5 < length (SplitAfter (HeaderGet resp ''Location'') CHR ''/'')"
  shows "fst (doPut tr dec path hs v) =
     Return (Some \<lparr>Collection = Collection path, Key = Key path,
                    Ref = SplitAfter (HeaderGet resp ''Location'') CHR ''/'' ! 5\<rparr>, None)"
  using assms by (simp add: doPut_def doRequest_simp index_def)

lemma GetPath_found:
  assumes "tr \<lparr>Method = ''GET'', TrailingPath = trailingGetURI path, Headers = Map.empty, ReqBody = None\<rparr> = Inr resp"
    and "StatusCode resp = 200"
    and "ReadFrom (Body resp) = Inr buf"
    and "Ref path = []"
    and "5 < length (SplitAfter (HeaderGet resp ''Content-Location'') CHR ''/'')"
  shows "GetPath tr dec path =
     (Return (Some \<lparr>KVResult.Path = path\<lparr>Ref := SplitAfter (HeaderGet resp ''Content-Location'') CHR ''/'' ! 5\<rparr>,
                     RawValue = buf\<rparr>, None),
      path\<lparr>Ref := SplitAfter (HeaderGet resp ''Content-Location'') CHR ''/'' ! 5\<rparr>,
      [\<lparr>Method = ''GET'', TrailingPath = trailingGetURI path, Headers = Map.empty, ReqBody = None\<rparr>])"
  using assms by (simp add: GetPath_def doRequest_simp index_def Let_def)


section \<open>Paths and precondition headers\<close>

text \<open>
  C2. For every address whose collection and key are not empty, the read path is
  \<^verbatim>\<open>collection/key\<close> when the ref is empty and \<^verbatim>\<open>collection/key/refs/ref\<close> when it is
  not; the write path is \<^verbatim>\<open>collection/key\<close> whatever the ref. These are the paths of
  the one request that \<^verbatim>\<open>GetPath\<close> and \<^verbatim>\<open>doPut\<close> make.
\<close>

theorem C2_read_and_write_paths:
  assumes "Collection p \<noteq> []" and "Key p \<noteq> []"
  shows "(Ref p = [] \<longrightarrow> trailingGetURI p = Collection p @ ''/'' @ Key p)
       \<and> (Ref p \<noteq> [] \<longrightarrow> trailingGetURI p = Collection p @ ''/'' @ Key p @ ''/refs/'' @ Ref p)
       \<and> trailingPutURI p = Collection p @ ''/'' @ Key p
       \<and> map TrailingPath (snd (snd (GetPath tr dec p))) = [trailingGetURI p]
       \<and> map TrailingPath (snd (doPut tr dec p hs v)) = [trailingPutURI p]"
  by (simp add: trailingGetURI_def trailingPutURI_def GetPath_requests doPut_requests)

theorem C2_read_and_write_paths_witness:
  "trailingGetURI \<lparr>Collection = ''users'', Key = ''ann'', Ref = []\<rparr> = ''users/ann''
   \<and> trailingGetURI \<lparr>Collection = ''users'', Key = ''ann'', Ref = ''0eb6642ca3efde45''\<rparr>
       = ''users/ann/refs/0eb6642ca3efde45''
   \<and> trailingPutURI \<lparr>Collection = ''users'', Key = ''ann'', Ref = ''0eb6642ca3efde45''\<rparr> = ''users/ann''"
  using C2_read_and_write_paths [of "\<lparr>Collection = ''users'', Key = ''ann'', Ref = []\<rparr>"]
        C2_read_and_write_paths [of "\<lparr>Collection = ''users'', Key = ''ann'', Ref = ''0eb6642ca3efde45''\<rparr>"]
  by simp

text \<open>
  C8. For a non-empty sequence of hops, \<^verbatim>\<open>GetRelations\<close> requests
  \<^verbatim>\<open>collection/key/relations\<close> followed by every hop, in order, each after a
  \<^verbatim>\<open>/\<close>; \<^verbatim>\<open>PutRelation\<close> requests
  \<^verbatim>\<open>sourceCollection/sourceKey/relation/kind/sinkCollection/sinkKey\<close>, with the
  singular \<^verbatim>\<open>relation\<close>.
\<close>

theorem C8_relation_paths:
  "snd (GetRelations tr dec decGraph collection key (hop # hops)) =
     [\<lparr>Method = ''GET'',
       TrailingPath = collection @ ''/'' @ key @ ''/relations'' @ concat (map (\<lambda>h. ''/'' @ h) (hop # hops)),
       Headers = Map.empty, ReqBody = None\<rparr>]
   \<and> snd (PutRelation tr dec sourceCollection sourceKey kind sinkCollection sinkKey) =
     [\<lparr>Method = ''PUT'',
       TrailingPath = sourceCollection @ ''/'' @ sourceKey @ ''/relation/'' @ kind @ ''/''
                        @ sinkCollection @ ''/'' @ sinkKey,
       Headers = Map.empty, ReqBody = None\<rparr>]"
  by (simp add: GetRelations_requests PutRelation_requests Join_Cons)

text \<open>
  C4. The request of a create-only write carries exactly the header
  \<^verbatim>\<open>If-None-Match\<close> with the value \<^verbatim>\<open>"*"\<close>; the request of a write or of a delete
  that is conditional on the ref carries exactly the header \<^verbatim>\<open>If-Match\<close> whose value
  is the ref of the address between two double quotes; an unconditional write or delete
  carries no header.
\<close>

theorem C4_precondition_headers:
  "snd (PutIfAbsentRaw tr dec collection key val) =
     [\<lparr>Method = ''PUT'', TrailingPath = collection @ ''/'' @ key,
       Headers = [''If-None-Match'' \<mapsto> ''\"*\"''], ReqBody = Some val\<rparr>]
   \<and> snd (PutIfUnmodifiedRaw tr dec path val) =
     [\<lparr>Method = ''PUT'', TrailingPath = Collection path @ ''/'' @ Key path,
       Headers = [''If-Match'' \<mapsto> ''\"'' @ Ref path @ ''\"''], ReqBody = Some val\<rparr>]
   \<and> snd (DeleteIfUnmodified tr dec path) =
     [\<lparr>Method = ''DELETE'', TrailingPath = Collection path @ ''/'' @ Key path,
       Headers = [''If-Match'' \<mapsto> ''\"'' @ Ref path @ ''\"''], ReqBody = None\<rparr>]
   \<and> snd (PutRaw tr dec collection key val) =
     [\<lparr>Method = ''PUT'', TrailingPath = collection @ ''/'' @ key,
       Headers = Map.empty, ReqBody = Some val\<rparr>]
   \<and> snd (Delete tr dec collection key) =
     [\<lparr>Method = ''DELETE'', TrailingPath = collection @ ''/'' @ key,
       Headers = Map.empty, ReqBody = None\<rparr>]"
  by (simp add: PutIfAbsentRaw_def PutIfUnmodifiedRaw_def DeleteIfUnmodified_def PutRaw_def
        Delete_def doPut_requests doDelete_requests trailingPutURI_def)

section \<open>Responses outside the success set\<close>













section \<open>The ref taken from a response header\<close>

text \<open>
  C1, as stated, fails. The ref is not located by searching for the \<^verbatim>\<open>refs\<close> segment.
  For the header \<^verbatim>\<open>https://host/v0/col/key/refs/abc123\<close> a successful write returns the ref
  \<^verbatim>\<open>key/\<close>, not the segment \<^verbatim>\<open>abc123\<close> that follows \<^verbatim>\<open>refs\<close>; for the header
  \<^verbatim>\<open>/v0/col/key/blobs/abc123\<close>, which has no \<^verbatim>\<open>refs\<close> segment, the write does not fail but
  returns the ref \<^verbatim>\<open>abc123\<close>.
\<close>

theorem C1_fixed_index_counterexample:
  "fst (PutRaw (serve (created ''https://host/v0/col/key/refs/abc123'')) rejecting ''col'' ''key'' ''{}'')
     = Return (Some \<lparr>Collection = ''col'', Key = ''key'', Ref = ''key/''\<rparr>, None)
   \<and> fst (PutRaw (serve (created ''/v0/col/key/blobs/abc123'')) rejecting ''col'' ''key'' ''{}'')
     = Return (Some \<lparr>Collection = ''col'', Key = ''key'', Ref = ''abc123''\<rparr>, None)"
  by (simp add: PutRaw_def doPut_def doRequest_simp serve_def created_def HeaderGet_def index_def
        trailingPutURI_def)

text \<open>
  C1, amended. For every successful write (\<^verbatim>\<open>doPut\<close>, which \<^verbatim>\<open>Put\<close>, \<^verbatim>\<open>PutIfAbsent\<close> and
  \<^verbatim>\<open>PutIfUnmodified\<close> all end in) and every successful read of an address with an empty ref,
  when the \<^verbatim>\<open>Location\<close> (resp. \<^verbatim>\<open>Content-Location\<close>) header, cut after each \<^verbatim>\<open>/\<close>, has at
  least six pieces, the ref returned is the piece at the fixed index 5. For a header of the
  shape \<^verbatim>\<open>/v0/collection/key/refs/ref\<close>, with no \<^verbatim>\<open>/\<close> inside collection, key and ref, there
  are six pieces and the one at index 5 is the segment that follows \<^verbatim>\<open>refs\<close>.
\<close>

theorem C1_ref_is_piece_at_index_5:
  "(tr \<lparr>Method = ''PUT'', TrailingPath = trailingPutURI path, Headers = hs, ReqBody = Some val\<rparr> = Inr resp
      \<and> StatusCode resp = 201
      \<and> 5 < length (SplitAfter (HeaderGet resp ''Location'') CHR ''/'') \<longrightarrow>
    fst (doPut tr dec path hs val) =
      Return (Some \<lparr>Collection = Collection path, Key = Key path,
                     Ref = SplitAfter (HeaderGet resp ''Location'') CHR ''/'' ! 5\<rparr>, None))
   \<and> (tr \<lparr>Method = ''GET'', TrailingPath = trailingGetURI path, Headers = Map.empty, ReqBody = None\<rparr> = Inr resp'
      \<and> StatusCode resp' = 200 \<and> ReadFrom (Body resp') = Inr buf \<and> Ref path = []
      \<and> 5 < length (SplitAfter (HeaderGet resp' ''Content-Location'') CHR ''/'') \<longrightarrow>
    fst (GetPath tr dec path) =
      Return (Some \<lparr>KVResult.Path =
                       path\<lparr>Ref := SplitAfter (HeaderGet resp' ''Content-Location'') CHR ''/'' ! 5\<rparr>,
                     RawValue = buf\<rparr>, None))
   \<and> (CHR ''/'' \<notin> set c \<and> CHR ''/'' \<notin> set k \<and> CHR ''/'' \<notin> set r \<longrightarrow>
        5 < length (SplitAfter (''/v0/'' @ c @ ''/'' @ k @ ''/refs/'' @ r) CHR ''/'')
      \<and> SplitAfter (''/v0/'' @ c @ ''/'' @ k @ ''/refs/'' @ r) CHR ''/'' ! 5 = r)"
proof -
  have shape: "CHR ''/'' \<notin> set c \<and> CHR ''/'' \<notin> set k \<and> CHR ''/'' \<notin> set r \<longrightarrow>
        5 < length (SplitAfter (''/v0/'' @ c @ ''/'' @ k @ ''/refs/'' @ r) CHR ''/'')
      \<and> SplitAfter (''/v0/'' @ c @ ''/'' @ k @ ''/refs/'' @ r) CHR ''/'' ! 5 = r"
    using SplitAfter_service_shape [of c k r] by simp
  show ?thesis
    using shape doPut_created [of tr path hs val resp dec] GetPath_found [of tr path resp' buf dec]
    by simp
qed

theorem C1_ref_is_piece_at_index_5_witness:
  "fst (doPut (serve (created ''/v0/users/ann/refs/0eb6642ca3efde45'')) rejecting
          \<lparr>Collection = ''users'', Key = ''ann'', Ref = []\<rparr> Map.empty ''{}'') =
     Return (Some \<lparr>Collection = ''users'', Key = ''ann'', Ref = ''0eb6642ca3efde45''\<rparr>, None)
   \<and> fst (GetPath (serve (found ''/v0/users/ann/refs/0eb6642ca3efde45'' ''{}'')) rejecting
          \<lparr>Collection = ''users'', Key = ''ann'', Ref = []\<rparr>) =
     Return (Some \<lparr>KVResult.Path = \<lparr>Collection = ''users'', Key = ''ann'', Ref = ''0eb6642ca3efde45''\<rparr>,
                    RawValue = ''{}''\<rparr>, None)
   \<and> SplitAfter ''/v0/users/ann/refs/0eb6642ca3efde45'' CHR ''/'' ! 5 = ''0eb6642ca3efde45''"
  using C1_ref_is_piece_at_index_5 [where tr = "serve (created ''/v0/users/ann/refs/0eb6642ca3efde45'')"
          and path = "\<lparr>Collection = ''users'', Key = ''ann'', Ref = []\<rparr>" and hs = Map.empty
          and val = "''{}''" and resp = "created ''/v0/users/ann/refs/0eb6642ca3efde45''"
          and dec = rejecting and c = "''users''" and k = "''ann''" and r = "''0eb6642ca3efde45''"
          and resp' = "found ''/v0/users/ann/refs/0eb6642ca3efde45'' ''{}''" and buf = "''{}''"]
        C1_ref_is_piece_at_index_5 [where tr = "serve (found ''/v0/users/ann/refs/0eb6642ca3efde45'' ''{}'')"
          and path = "\<lparr>Collection = ''users'', Key = ''ann'', Ref = []\<rparr>" and hs = Map.empty
          and val = "''{}''" and resp = "created ''/v0/users/ann/refs/0eb6642ca3efde45''"
          and dec = rejecting and c = "''users''" and k = "''ann''" and r = "''0eb6642ca3efde45''"
          and resp' = "found ''/v0/users/ann/refs/0eb6642ca3efde45'' ''{}''" and buf = "''{}''"]
  by (simp add: serve_def created_def found_def HeaderGet_def)

section \<open>The next page of a listing\<close>






section \<open>Addresses with an empty component\<close>







section \<open>Frame properties\<close>





end
